theory Spec2Isabelle
  imports Complex_Main "HOL-Library.Log_Nat"
begin

section \<open>The diagram viewport (components/InteractiveDiagram.tsx)\<close>

text \<open>
  The component keeps three pieces of React state: \<open>transform = {x, y, k}\<close>,
  \<open>isPanning\<close> and \<open>startPoint = {x, y}\<close>. Every handler is modelled as a function
  from the state its render closed over to the state after the handler's setters have
  run. The handlers come first in exact arithmetic on the reals, which is what the
  source's expressions denote; the wheel handler follows once more with the rounding of
  IEEE doubles written out.
  The record fields \<open>x\<close>, \<open>y\<close>, \<open>k\<close> of the source carry a prefix here, since a
  field name is a constant in HOL.
\<close>

record transform =
  tr_x :: real
  tr_y :: real
  tr_k :: real

record point =
  pt_x :: real
  pt_y :: real

record viewport =
  transform :: transform
  isPanning :: bool
  startPoint :: point

text \<open>The initial values given to \<open>useState\<close>.\<close>

definition initialTransform :: transform where
  "initialTransform = \<lparr>tr_x = 0, tr_y = 0, tr_k = 1\<rparr>"

definition initialViewport :: viewport where
  "initialViewport =
     \<lparr>transform = initialTransform, isPanning = False,
      startPoint = \<lparr>pt_x = 0, pt_y = 0\<rparr>\<rparr>"

text \<open>
  What the handlers read of a mouse event: the client coordinates, and whether the
  event's target is the \<open>svg\<close> element itself or carries the class \<open>diagram-bg\<close>.
\<close>

record mouse_event =
  clientX :: real
  clientY :: real
  targetIsSvg :: bool
  targetHasDiagramBg :: bool

text \<open>A wheel event adds \<open>deltaY\<close>.\<close>

record wheel_event =
  w_clientX :: real
  w_clientY :: real
  deltaY :: real

text \<open>
  \<open>svgRef.current\<close> is \<open>null\<close> or the mounted element; of the element the wheel
  handler reads only \<open>getBoundingClientRect()\<close>, and of that \<open>left\<close> and \<open>top\<close>.
\<close>

record client_rect =
  rect_left :: real
  rect_top :: real

definition handleMouseDown :: "mouse_event \<Rightarrow> viewport \<Rightarrow> viewport" where
  "handleMouseDown e s =
     (if targetIsSvg e \<or> targetHasDiagramBg e
      then s\<lparr>isPanning := True,
             startPoint := \<lparr>pt_x = clientX e - tr_x (transform s),
                            pt_y = clientY e - tr_y (transform s)\<rparr>\<rparr>
      else s)"

definition handleMouseMove :: "mouse_event \<Rightarrow> viewport \<Rightarrow> viewport" where
  "handleMouseMove e s =
     (if \<not> isPanning s then s
      else s\<lparr>transform := (transform s)\<lparr>tr_x := clientX e - pt_x (startPoint s),
                                           tr_y := clientY e - pt_y (startPoint s)\<rparr>\<rparr>)"

definition handleMouseUp :: "viewport \<Rightarrow> viewport" where
  "handleMouseUp s = s\<lparr>isPanning := False\<rparr>"

text \<open>The three local constants of \<open>handleWheel\<close>.\<close>

definition scaleAmount :: real where
  "scaleAmount = 1 / 10"

definition minScale :: real where
  "minScale = 1 / 2"

definition maxScale :: real where
  "maxScale = 3"

text \<open>
  \<open>Math.sign\<close> is \<open>sgn\<close> on the reals. The candidate scale of line 45, as a function
  of the event and the current transform:
\<close>

definition newScale :: "wheel_event \<Rightarrow> viewport \<Rightarrow> real" where
  "newScale e s = tr_k (transform s) * (1 - sgn (deltaY e) * scaleAmount)"

definition handleWheel :: "client_rect option \<Rightarrow> wheel_event \<Rightarrow> viewport \<Rightarrow> viewport" where
  "handleWheel svg e s =
     (case svg of
        None \<Rightarrow> s
      | Some rect \<Rightarrow>
          (let mouseX = w_clientX e - rect_left rect;
               mouseY = w_clientY e - rect_top rect
           in if newScale e s < minScale \<or> newScale e s > maxScale then s
              else
                (let worldX = (mouseX - tr_x (transform s)) / tr_k (transform s);
                     worldY = (mouseY - tr_y (transform s)) / tr_k (transform s);
                     newX = mouseX - worldX * newScale e s;
                     newY = mouseY - worldY * newScale e s
                 in s\<lparr>transform := \<lparr>tr_x = newX, tr_y = newY, tr_k = newScale e s\<rparr>\<rparr>)))"

text \<open>
  The two coordinate mappings. Screen to world is the inverse mapping the wheel handler
  computes (lines 53 and 54); world to screen is the transform the render applies to the
  diagram's group, \<open>translate(x y) scale(k)\<close> (line 103).
\<close>

definition screenToWorld :: "transform \<Rightarrow> point \<Rightarrow> point" where
  "screenToWorld t p =
     \<lparr>pt_x = (pt_x p - tr_x t) / tr_k t, pt_y = (pt_y p - tr_y t) / tr_k t\<rparr>"

definition worldToScreen :: "transform \<Rightarrow> point \<Rightarrow> point" where
  "worldToScreen t w =
     \<lparr>pt_x = tr_x t + tr_k t * pt_x w, pt_y = tr_y t + tr_k t * pt_y w\<rparr>"

text \<open>The screen point of a wheel event, relative to the mounted \<open>svg\<close>.\<close>

definition mousePoint :: "client_rect \<Rightarrow> wheel_event \<Rightarrow> point" where
  "mousePoint rect e =
     \<lparr>pt_x = w_clientX e - rect_left rect, pt_y = w_clientY e - rect_top rect\<rparr>"

text \<open>
  A sequence of wheel events, each delivered with whatever \<open>svgRef.current\<close> held at
  the time.
\<close>

fun zooms :: "(client_rect option \<times> wheel_event) list \<Rightarrow> viewport \<Rightarrow> viewport" where
  "zooms [] s = s"
| "zooms ((svg, e) # evs) s = zooms evs (handleWheel svg e s)"

text \<open>A sequence of mouse moves.\<close>

fun moves :: "mouse_event list \<Rightarrow> viewport \<Rightarrow> viewport" where
  "moves [] s = s"
| "moves (e # es) s = moves es (handleMouseMove e s)"

section \<open>IEEE doubles\<close>

text \<open>
  A JavaScript number is an IEEE 754 binary64 value, and each arithmetic operation
  returns the exact result rounded to the nearest such value, ties to the even
  significand. \<open>round64\<close> is that rounding on the reals, for the normal range: a
  non-zero \<open>x\<close> with \<open>2 powi e \<le> \<bar>x\<bar>\<close> and \<open>\<bar>x\<bar> < 2 powi (e + 1)\<close> is rounded
  to a multiple of \<open>2 powi (e - 52)\<close>. Overflow to infinity, subnormal numbers, NaN
  and the sign of zero are not modelled; none of them arises from the values used below.
\<close>

definition binade :: "real \<Rightarrow> int" where
  "binade x =
     (if 1 \<le> \<bar>x\<bar> then int (floorlog 2 (nat \<lfloor>\<bar>x\<bar>\<rfloor>)) - 1
      else - int (floorlog 2 (nat (\<lceil>1 / \<bar>x\<bar>\<rceil> - 1))))"

definition ulp :: "real \<Rightarrow> real" where
  "ulp x = 2 powi (binade x - 52)"

definition roundHalfEven :: "real \<Rightarrow> int" where
  "roundHalfEven m =
     (if m - of_int \<lfloor>m\<rfloor> < 1 / 2 then \<lfloor>m\<rfloor>
      else if 1 / 2 < m - of_int \<lfloor>m\<rfloor> then \<lfloor>m\<rfloor> + 1
      else if even \<lfloor>m\<rfloor> then \<lfloor>m\<rfloor> else \<lfloor>m\<rfloor> + 1)"

definition round64 :: "real \<Rightarrow> real" where
  "round64 x = (if x = 0 then 0 else of_int (roundHalfEven (x / ulp x)) * ulp x)"

text \<open>
  The wheel handler once more, with the rounding \<open>rnd\<close> applied to the result of every
  operation of lines 42 to 57 and to the literal \<open>0.1\<close>; the literals \<open>1\<close>, \<open>0.5\<close>
  and \<open>3\<close> and the values of \<open>Math.sign\<close> are doubles as they stand. With the
  identity for \<open>rnd\<close> this is \<open>handleWheel\<close>, with \<open>round64\<close> it is the handler as
  JavaScript computes it.
\<close>

definition newScaleWith :: "(real \<Rightarrow> real) \<Rightarrow> wheel_event \<Rightarrow> viewport \<Rightarrow> real" where
  "newScaleWith rnd e s =
     rnd (tr_k (transform s) * rnd (1 - rnd (sgn (deltaY e) * rnd scaleAmount)))"

definition handleWheelWith ::
  "(real \<Rightarrow> real) \<Rightarrow> client_rect option \<Rightarrow> wheel_event \<Rightarrow> viewport \<Rightarrow> viewport" where
  "handleWheelWith rnd svg e s =
     (case svg of
        None \<Rightarrow> s
      | Some rect \<Rightarrow>
          (let mouseX = rnd (w_clientX e - rect_left rect);
               mouseY = rnd (w_clientY e - rect_top rect)
           in if newScaleWith rnd e s < minScale \<or> newScaleWith rnd e s > maxScale then s
              else
                (let worldX = rnd (rnd (mouseX - tr_x (transform s)) / tr_k (transform s));
                     worldY = rnd (rnd (mouseY - tr_y (transform s)) / tr_k (transform s));
                     newX = rnd (mouseX - rnd (worldX * newScaleWith rnd e s));
                     newY = rnd (mouseY - rnd (worldY * newScaleWith rnd e s))
                 in s\<lparr>transform :=
                        \<lparr>tr_x = newX, tr_y = newY, tr_k = newScaleWith rnd e s\<rparr>\<rparr>)))"

text \<open>The group's transform of line 103, likewise with every operation rounded.\<close>

definition worldToScreenWith :: "(real \<Rightarrow> real) \<Rightarrow> transform \<Rightarrow> point \<Rightarrow> point" where
  "worldToScreenWith rnd t w =
     \<lparr>pt_x = rnd (tr_x t + rnd (tr_k t * pt_x w)),
      pt_y = rnd (tr_y t + rnd (tr_k t * pt_y w))\<rparr>"

section \<open>The data model (types.ts)\<close>

text \<open>
  \<open>DiagramComponent\<close>, with the prefix \<open>c_\<close> on its fields. Optional fields are
  options. The \<open>code\<close> record is held as its entries in the order in which
  \<open>Object.keys\<close> enumerates them, which is the order every consumer below sees.
\<close>

datatype component_type = Class | Interface | Arrow | Note

datatype arrow_type = Implementation | Dependency

record DiagramComponent =
  c_id :: string
  c_type :: component_type
  c_label :: string
  c_code :: "(string \<times> string) list"
  c_x :: real
  c_y :: real
  c_width :: "real option"
  c_height :: "real option"
  c_points :: "string option"
  c_arrowType :: "arrow_type option"

text \<open>The \<open>diagram\<close> field of a \<open>DesignPattern\<close>.\<close>

record diagram =
  components :: "DiagramComponent list"
  viewBox :: string

text \<open>
  The diagram attaches its three callbacks (mouse enter, mouse leave, click) to the
  elements it renders, one per entry of \<open>diagram.components\<close>: a class or an interface
  always, an arrow when its \<open>points\<close> string is truthy; for anything else the map
  returns \<open>null\<close>. The component handed to \<open>onHoverComponent\<close> and
  \<open>onPinComponent\<close> is that entry.
\<close>

definition rendersHandlers :: "DiagramComponent \<Rightarrow> bool" where
  "rendersHandlers c =
     (c_type c = Class \<or> c_type c = Interface
      \<or> (c_type c = Arrow \<and> (case c_points c of None \<Rightarrow> False | Some p \<Rightarrow> p \<noteq> [])))"

definition interactiveComponents :: "diagram \<Rightarrow> DiagramComponent list" where
  "interactiveComponents d = filter rendersHandlers (components d)"

section \<open>Hover and pin (components/PatternViewer.tsx)\<close>

text \<open>
  Of the component's state the selection logic uses \<open>hoveredComponent\<close>,
  \<open>pinnedComponent\<close> and the ref \<open>hoverTimeoutRef\<close>. The window's timers are part
  of the state as well: \<open>activeTimers\<close> lists the handles of the timers that are
  armed and have neither fired nor been cleared (every timer this component arms has the
  same callback, \<open>setHoveredComponent(null)\<close>), and \<open>nextHandle\<close> is the handle
  the next \<open>window.setTimeout\<close> returns. The platform hands out handles greater than
  zero and never one that is in use; a counter from 1 does both.
\<close>

record viewer =
  hoveredComponent :: "DiagramComponent option"
  pinnedComponent :: "DiagramComponent option"
  hoverTimeoutRef :: "nat option"
  activeTimers :: "nat list"
  nextHandle :: nat

definition initialViewer :: viewer where
  "initialViewer =
     \<lparr>hoveredComponent = None, pinnedComponent = None, hoverTimeoutRef = None,
      activeTimers = [], nextHandle = 1\<rparr>"

text \<open>
  \<open>if (hoverTimeoutRef.current)\<close> tests truthiness: \<open>null\<close> and the number 0 are
  falsy. \<open>clearTimeout\<close> removes the handle from the armed timers, if it is there.
\<close>

definition clearHoverTimeout :: "viewer \<Rightarrow> viewer" where
  "clearHoverTimeout s =
     (case hoverTimeoutRef s of
        None \<Rightarrow> s
      | Some h \<Rightarrow>
          if h = 0 then s
          else s\<lparr>activeTimers := removeAll h (activeTimers s), hoverTimeoutRef := None\<rparr>)"

definition handleHoverComponent :: "DiagramComponent option \<Rightarrow> viewer \<Rightarrow> viewer" where
  "handleHoverComponent component s =
     (let s1 = clearHoverTimeout s
      in case component of
           Some c \<Rightarrow> s1\<lparr>hoveredComponent := Some c\<rparr>
         | None \<Rightarrow>
             s1\<lparr>hoverTimeoutRef := Some (nextHandle s1),
                activeTimers := activeTimers s1 @ [nextHandle s1],
                nextHandle := Suc (nextHandle s1)\<rparr>)"

text \<open>
  \<open>prev?.id === component.id\<close> is false when \<open>prev\<close> is \<open>null\<close>: the left side is
  then \<open>undefined\<close> and the right side a string.
\<close>

definition sameId :: "DiagramComponent option \<Rightarrow> DiagramComponent \<Rightarrow> bool" where
  "sameId prev component =
     (case prev of None \<Rightarrow> False | Some p \<Rightarrow> c_id p = c_id component)"

definition handlePinComponent :: "DiagramComponent \<Rightarrow> viewer \<Rightarrow> viewer" where
  "handlePinComponent component s =
     (let s1 = clearHoverTimeout s
      in s1\<lparr>pinnedComponent :=
              (if sameId (pinnedComponent s1) component then None else Some component)\<rparr>)"

definition handleClosePane :: "viewer \<Rightarrow> viewer" where
  "handleClosePane s = s\<lparr>pinnedComponent := None\<rparr>"

text \<open>
  The callback of an armed timer runs once, when its delay has passed: the timer leaves
  the armed ones and \<open>setHoveredComponent(null)\<close> runs. The ref is not touched. A
  handle that is not armed has nothing to run.
\<close>

definition timerFires :: "nat \<Rightarrow> viewer \<Rightarrow> viewer" where
  "timerFires h s =
     (if h \<in> set (activeTimers s)
      then s\<lparr>activeTimers := removeAll h (activeTimers s), hoveredComponent := None\<rparr>
      else s)"

text \<open>\<open>pinnedComponent || hoveredComponent\<close>: an object is truthy, \<open>null\<close> is not.\<close>

definition componentToShow :: "viewer \<Rightarrow> DiagramComponent option" where
  "componentToShow s =
     (case pinnedComponent s of Some p \<Rightarrow> Some p | None \<Rightarrow> hoveredComponent s)"

text \<open>
  What the right-hand side of the view mounts: the code pane for the component to show,
  with its \<open>isPinned\<close> flag, or the pattern's details when there is none.
\<close>

datatype detail_panel = CodePanePanel DiagramComponent bool | PatternDetailsPanel

definition detailPanel :: "viewer \<Rightarrow> detail_panel" where
  "detailPanel s =
     (case componentToShow s of
        None \<Rightarrow> PatternDetailsPanel
      | Some c \<Rightarrow>
          CodePanePanel c
            (case pinnedComponent s of None \<Rightarrow> False | Some p \<Rightarrow> c_id c = c_id p))"

text \<open>
  The events that reach the component: the diagram's three callbacks, the close button
  of the code pane, the pointer entering and leaving the code pane's wrapper, and a timer
  running out.
\<close>

datatype viewer_event =
    HoverEnter DiagramComponent
  | HoverLeave
  | Click DiagramComponent
  | ClosePane
  | PaneEnter
  | PaneLeave
  | TimerFires nat

fun step :: "viewer_event \<Rightarrow> viewer \<Rightarrow> viewer" where
  "step (HoverEnter c) s = handleHoverComponent (Some c) s"
| "step HoverLeave s = handleHoverComponent None s"
| "step (Click c) s = handlePinComponent c s"
| "step ClosePane s = handleClosePane s"
| "step PaneEnter s = clearHoverTimeout s"
| "step PaneLeave s = handleHoverComponent None s"
| "step (TimerFires h) s = timerFires h s"

fun run :: "viewer_event list \<Rightarrow> viewer \<Rightarrow> viewer" where
  "run [] s = s"
| "run (ev # evs) s = run evs (step ev s)"

text \<open>
  The single-slot invariant: no timer is armed, or exactly one is and the ref holds its
  handle; handles are positive.
\<close>

definition single_slot :: "viewer \<Rightarrow> bool" where
  "single_slot s =
     (0 < nextHandle s
      \<and> (case activeTimers s of
            [] \<Rightarrow> True
          | [h] \<Rightarrow> hoverTimeoutRef s = Some h \<and> 0 < h
          | _ \<Rightarrow> False))"

text \<open>
  Sample data for the concrete evaluations below: the two arrows of the Memento
  pattern's diagram (data/patterns/memento.ts), and a diagram that holds the first of
  them only.
\<close>

definition arrowCreates :: DiagramComponent where
  "arrowCreates =
     \<lparr>c_id = ''arrow-creates'', c_type = Arrow, c_label = ''creates/restores'',
      c_code = [(''java'', ''The Originator creates and uses Mementos.''),
                (''python'', ''The Originator creates and uses Mementos.''),
                (''javascript'', ''The Originator creates and uses Mementos.'')],
      c_x = 300, c_y = 125, c_width = None, c_height = None,
      c_points = Some ''300,100 V 150'', c_arrowType = Some Dependency\<rparr>"

definition arrowHolds :: DiagramComponent where
  "arrowHolds =
     \<lparr>c_id = ''arrow-holds'', c_type = Arrow, c_label = ''holds'',
      c_code = [(''java'', ''The Caretaker holds a history of Mementos.''),
                (''python'', ''The Caretaker holds a history of Mementos.''),
                (''javascript'', ''The Caretaker holds a history of Mementos.'')],
      c_x = 300, c_y = 265, c_width = None, c_height = None,
      c_points = Some ''300,300 V 230'', c_arrowType = Some Dependency\<rparr>"

definition createsOnly :: diagram where
  "createsOnly = \<lparr>components = [arrowCreates], viewBox = ''0 0 600 400''\<rparr>"

section \<open>The code pane (components/CodePane.tsx)\<close>

definition availableLanguages :: "DiagramComponent \<Rightarrow> string list" where
  "availableLanguages c = map fst (c_code c)"

text \<open>
  The initial value of the \<open>selectedLanguage\<close> state, computed when the pane mounts.
  \<open>availableLanguages[0]\<close> is \<open>undefined\<close> on an empty array, and \<open>||\<close> takes its
  right operand when the left one is \<open>undefined\<close> or the empty string.
\<close>

definition initialSelectedLanguage :: "DiagramComponent \<Rightarrow> string" where
  "initialSelectedLanguage c =
     (if ''java'' \<in> set (availableLanguages c) then ''java''
      else (case availableLanguages c of
              [] \<Rightarrow> ''''
            | l # _ \<Rightarrow> if l = '''' then '''' else l))"

text \<open>
  \<open>availableLanguages.length > 0 && selectedLanguage\<close>, read as a condition: the
  empty string is falsy.
\<close>

definition hasCode :: "DiagramComponent \<Rightarrow> string \<Rightarrow> bool" where
  "hasCode c selectedLanguage = (0 < length (availableLanguages c) \<and> selectedLanguage \<noteq> '''')"

text \<open>
  What the pane renders under its title: the language buttons with the highlighted
  snippet of the selected language, or the text ``No code snippet available for this
  component.''. The snippet's text itself is not part of the model.
\<close>

datatype code_pane_body = LanguageTabs "string list" string | NoCodeSnippet

definition codePaneBody :: "DiagramComponent \<Rightarrow> string \<Rightarrow> code_pane_body" where
  "codePaneBody c selectedLanguage =
     (if hasCode c selectedLanguage then LanguageTabs (availableLanguages c) selectedLanguage
      else NoCodeSnippet)"

section \<open>The mounted code pane (PatternViewer.tsx and CodePane.tsx)\<close>

text \<open>
  The viewer renders the code pane at one place and without a key, whenever there is a
  component to show; when there is none it renders the pattern's details there instead.
  So the pane is mounted when the component to show changes from none to some component,
  stays mounted, with its state, while the component to show changes from one component
  to another, and is unmounted when there is none again. Its state is
  \<open>selectedLanguage\<close>, whose initial value is computed at mount only. A page is the
  viewer's state together with the pane's: \<open>None\<close> while no pane is mounted.
\<close>

record page =
  viewerState :: viewer
  selectedLanguage :: "string option"

definition initialPage :: page where
  "initialPage = \<lparr>viewerState = initialViewer, selectedLanguage = None\<rparr>"

text \<open>The pane's state after the viewer has rendered in state \<open>s\<close>.\<close>

definition renderCodePane :: "viewer \<Rightarrow> string option \<Rightarrow> string option" where
  "renderCodePane s pane =
     (case componentToShow s of
        None \<Rightarrow> None
      | Some c \<Rightarrow>
          (case pane of
             None \<Rightarrow> Some (initialSelectedLanguage c)
           | Some selected \<Rightarrow> Some selected))"

text \<open>
  A click on the button of language \<open>lang\<close> calls \<open>setSelectedLanguage(lang)\<close>. The
  button is there when the pane is mounted, \<open>hasCode\<close> holds and \<open>lang\<close> is one of the
  available languages.
\<close>

definition clickLanguage :: "string \<Rightarrow> page \<Rightarrow> page" where
  "clickLanguage lang p =
     (case componentToShow (viewerState p) of
        None \<Rightarrow> p
      | Some c \<Rightarrow>
          (case selectedLanguage p of
             None \<Rightarrow> p
           | Some selected \<Rightarrow>
               if hasCode c selected \<and> lang \<in> set (availableLanguages c)
               then p\<lparr>selectedLanguage := Some lang\<rparr> else p))"

datatype page_event = ViewerEvent viewer_event | LanguageClick string

fun pageStep :: "page_event \<Rightarrow> page \<Rightarrow> page" where
  "pageStep (ViewerEvent ev) p =
     \<lparr>viewerState = step ev (viewerState p),
      selectedLanguage = renderCodePane (step ev (viewerState p)) (selectedLanguage p)\<rparr>"
| "pageStep (LanguageClick lang) p = clickLanguage lang p"

fun pageRun :: "page_event list \<Rightarrow> page \<Rightarrow> page" where
  "pageRun [] p = p"
| "pageRun (ev # evs) p = pageRun evs (pageStep ev p)"

text \<open>What the mounted pane shows, if one is mounted.\<close>

definition paneBody :: "page \<Rightarrow> code_pane_body option" where
  "paneBody p =
     (case componentToShow (viewerState p) of
        None \<Rightarrow> None
      | Some c \<Rightarrow>
          (case selectedLanguage p of
             None \<Rightarrow> None
           | Some selected \<Rightarrow> Some (codePaneBody c selected)))"

text \<open>
  Two more samples: the second Memento arrow without its \<open>java\<close> entry, and with a
  single entry under the empty key.
\<close>

definition arrowHoldsNoJava :: DiagramComponent where
  "arrowHoldsNoJava =
     arrowHolds\<lparr>c_code := [(''python'', ''The Caretaker holds a history of Mementos.''),
                           (''javascript'', ''The Caretaker holds a history of Mementos.'')]\<rparr>"

definition arrowHoldsBlankKey :: DiagramComponent where
  "arrowHoldsBlankKey =
     arrowHolds\<lparr>c_code := [('''', ''The Caretaker holds a history of Mementos.'')]\<rparr>"

section \<open>Properties of the viewport\<close>

lemma handleWheel_rejected:
  "newScale e s < minScale \<or> newScale e s > maxScale \<Longrightarrow> handleWheel svg e s = s"
  by (simp add: handleWheel_def Let_def split: option.split)

lemma handleWheel_scale:
  "tr_k (transform (handleWheel svg e s)) = tr_k (transform s)
   \<or> (minScale \<le> tr_k (transform (handleWheel svg e s))
      \<and> tr_k (transform (handleWheel svg e s)) \<le> maxScale)"
  by (simp add: handleWheel_def Let_def split: option.split)

lemma handleWheel_bounds:
  assumes "minScale \<le> tr_k (transform s)" and "tr_k (transform s) \<le> maxScale"
  shows "minScale \<le> tr_k (transform (handleWheel svg e s))
         \<and> tr_k (transform (handleWheel svg e s)) \<le> maxScale"
  using assms handleWheel_scale [of svg e s] by auto

lemma zooms_bounds:
  "minScale \<le> tr_k (transform s) \<Longrightarrow> tr_k (transform s) \<le> maxScale \<Longrightarrow>
   minScale \<le> tr_k (transform (zooms evs s)) \<and> tr_k (transform (zooms evs s)) \<le> maxScale"
proof (induction evs arbitrary: s)
  case Nil
  then show ?case by simp
next
  case (Cons a evs)
  obtain svg e where a: "a = (svg, e)" by (cases a)
  from Cons.prems handleWheel_bounds [of s svg e]
  have "minScale \<le> tr_k (transform (handleWheel svg e s))"
    and "tr_k (transform (handleWheel svg e s)) \<le> maxScale"
    by simp_all
  then show ?case
    unfolding a zooms.simps by (rule Cons.IH)
qed

lemma initial_in_bounds:
  "minScale \<le> tr_k (transform initialViewport)"
  "tr_k (transform initialViewport) \<le> maxScale"
  by (simp_all add: initialViewport_def initialTransform_def minScale_def maxScale_def)

text \<open>
  C1. Zoom bounds. After any sequence of wheel events from the initial state the scale
  lies in \<open>[0.5, 3]\<close>; and in any state whatever, a wheel event whose candidate scale
  lies outside \<open>[0.5, 3]\<close> leaves the whole state (so the transform's \<open>x\<close>, \<open>y\<close> and
  \<open>k\<close>) as it was: the handler returns before \<open>setTransform\<close>, it does not clamp.
\<close>

theorem zoom_bounds:
  "(1 / 2 \<le> tr_k (transform (zooms evs initialViewport))
    \<and> tr_k (transform (zooms evs initialViewport)) \<le> 3)
   \<and> (newScale e s < 1 / 2 \<or> newScale e s > 3 \<longrightarrow> handleWheel svg e s = s)"
proof -
  have "minScale \<le> tr_k (transform (zooms evs initialViewport))
        \<and> tr_k (transform (zooms evs initialViewport)) \<le> maxScale"
    by (rule zooms_bounds) (rule initial_in_bounds)+
  moreover have "newScale e s < 1 / 2 \<or> newScale e s > 3 \<longrightarrow> handleWheel svg e s = s"
    using handleWheel_rejected [of e s svg] by (simp add: minScale_def maxScale_def)
  ultimately show ?thesis by (simp add: minScale_def maxScale_def)
qed

theorem zoom_bounds_witness:
  "3 < newScale \<lparr>w_clientX = 100, w_clientY = 100, deltaY = - 1\<rparr>
         (initialViewport\<lparr>transform := \<lparr>tr_x = 0, tr_y = 0, tr_k = 3\<rparr>\<rparr>)
   \<and> handleWheel (Some \<lparr>rect_left = 0, rect_top = 0\<rparr>)
         \<lparr>w_clientX = 100, w_clientY = 100, deltaY = - 1\<rparr>
         (initialViewport\<lparr>transform := \<lparr>tr_x = 0, tr_y = 0, tr_k = 3\<rparr>\<rparr>)
       = initialViewport\<lparr>transform := \<lparr>tr_x = 0, tr_y = 0, tr_k = 3\<rparr>\<rparr>
   \<and> 1 / 2 \<le> tr_k (transform (zooms
         [(Some \<lparr>rect_left = 0, rect_top = 0\<rparr>,
           \<lparr>w_clientX = 100, w_clientY = 100, deltaY = - 1\<rparr>)] initialViewport))
   \<and> tr_k (transform (zooms
         [(Some \<lparr>rect_left = 0, rect_top = 0\<rparr>,
           \<lparr>w_clientX = 100, w_clientY = 100, deltaY = - 1\<rparr>)] initialViewport)) \<le> 3"
  using zoom_bounds
    [of "[(Some \<lparr>rect_left = 0, rect_top = 0\<rparr>,
           \<lparr>w_clientX = 100, w_clientY = 100, deltaY = - 1\<rparr>)]"
        "\<lparr>w_clientX = 100, w_clientY = 100, deltaY = - 1\<rparr>"
        "initialViewport\<lparr>transform := \<lparr>tr_x = 0, tr_y = 0, tr_k = 3\<rparr>\<rparr>"
        "Some \<lparr>rect_left = 0, rect_top = 0\<rparr>"]
  by (simp add: newScale_def scaleAmount_def)

lemma successful_zoom_scale_nonzero:
  assumes "minScale \<le> newScale e s"
  shows "tr_k (transform s) \<noteq> 0"
proof
  assume "tr_k (transform s) = 0"
  then have "newScale e s = 0" by (simp add: newScale_def)
  with assms show False by (simp add: minScale_def)
qed

lemma handleWheel_accepted:
  assumes "minScale \<le> newScale e s" and "newScale e s \<le> maxScale"
  shows "transform (handleWheel (Some rect) e s) =
         \<lparr>tr_x = pt_x (mousePoint rect e)
                  - pt_x (screenToWorld (transform s) (mousePoint rect e)) * newScale e s,
          tr_y = pt_y (mousePoint rect e)
                  - pt_y (screenToWorld (transform s) (mousePoint rect e)) * newScale e s,
          tr_k = newScale e s\<rparr>"
  using assms
  by (simp add: handleWheel_def Let_def mousePoint_def screenToWorld_def not_less [symmetric])

text \<open>
  C2. Zoom to cursor. Let a wheel event at screen point \<open>p\<close> be accepted (its candidate
  scale lies in \<open>[0.5, 3]\<close>), and let \<open>w\<close> be the world point the handler computes for
  \<open>p\<close> from the transform before the event. Then the scale before the event is not
  zero, the old transform renders \<open>w\<close> at \<open>p\<close>, and so does the new transform. The
  equalities are those of exact arithmetic; the rounding of doubles is left to the
  tolerance the property allows.
\<close>

theorem zoom_to_cursor:
  assumes "1 / 2 \<le> newScale e s" and "newScale e s \<le> 3"
  shows "tr_k (transform s) \<noteq> 0
         \<and> worldToScreen (transform s)
              (screenToWorld (transform s) (mousePoint rect e)) = mousePoint rect e
         \<and> worldToScreen (transform (handleWheel (Some rect) e s))
              (screenToWorld (transform s) (mousePoint rect e)) = mousePoint rect e"
proof -
  from assms have lo: "minScale \<le> newScale e s" and hi: "newScale e s \<le> maxScale"
    by (simp_all add: minScale_def maxScale_def)
  from lo have k: "tr_k (transform s) \<noteq> 0"
    by (rule successful_zoom_scale_nonzero)
  have old: "worldToScreen (transform s)
               (screenToWorld (transform s) (mousePoint rect e)) = mousePoint rect e"
    using k by (simp add: worldToScreen_def screenToWorld_def)
  have new: "worldToScreen (transform (handleWheel (Some rect) e s))
               (screenToWorld (transform s) (mousePoint rect e)) = mousePoint rect e"
    by (simp add: handleWheel_accepted [OF lo hi] worldToScreen_def mult.commute)
  from k old new show ?thesis by simp
qed

theorem zoom_to_cursor_witness:
  "1 / 2 \<le> newScale \<lparr>w_clientX = 130, w_clientY = 70, deltaY = 1\<rparr>
              (initialViewport\<lparr>transform := \<lparr>tr_x = 20, tr_y = - 5, tr_k = 2\<rparr>\<rparr>)
   \<and> newScale \<lparr>w_clientX = 130, w_clientY = 70, deltaY = 1\<rparr>
              (initialViewport\<lparr>transform := \<lparr>tr_x = 20, tr_y = - 5, tr_k = 2\<rparr>\<rparr>) \<le> 3
   \<and> transform (handleWheel (Some \<lparr>rect_left = 30, rect_top = 10\<rparr>)
        \<lparr>w_clientX = 130, w_clientY = 70, deltaY = 1\<rparr>
        (initialViewport\<lparr>transform := \<lparr>tr_x = 20, tr_y = - 5, tr_k = 2\<rparr>\<rparr>))
       = \<lparr>tr_x = 28, tr_y = 3 / 2, tr_k = 9 / 5\<rparr>
   \<and> screenToWorld \<lparr>tr_x = 20, tr_y = - 5, tr_k = 2\<rparr> \<lparr>pt_x = 100, pt_y = 60\<rparr>
       = \<lparr>pt_x = 40, pt_y = 65 / 2\<rparr>
   \<and> worldToScreen \<lparr>tr_x = 28, tr_y = 3 / 2, tr_k = 9 / 5\<rparr> \<lparr>pt_x = 40, pt_y = 65 / 2\<rparr>
       = \<lparr>pt_x = 100, pt_y = 60\<rparr>"
  using zoom_to_cursor
    [of "\<lparr>w_clientX = 130, w_clientY = 70, deltaY = 1\<rparr>"
        "initialViewport\<lparr>transform := \<lparr>tr_x = 20, tr_y = - 5, tr_k = 2\<rparr>\<rparr>"
        "\<lparr>rect_left = 30, rect_top = 10\<rparr>"]
  by (simp add: newScale_def scaleAmount_def handleWheel_def Let_def minScale_def
      maxScale_def screenToWorld_def worldToScreen_def mousePoint_def)

text \<open>
  In exact arithmetic the zoom-in step at \<open>(100, 100)\<close> from the initial transform
  gives the translation \<open>(-10, -10)\<close> and the scale \<open>11/10\<close>.
\<close>

lemma zoom_in_exact:
  assumes "deltaY e < 0" and "mousePoint rect e = \<lparr>pt_x = 100, pt_y = 100\<rparr>"
  shows "transform (handleWheel (Some rect) e initialViewport)
           = \<lparr>tr_x = - 10, tr_y = - 10, tr_k = 11 / 10\<rparr>"
proof -
  from assms(1) have ns: "newScale e initialViewport = 11 / 10"
    by (simp add: newScale_def scaleAmount_def initialViewport_def initialTransform_def)
  from assms(2) have mx: "w_clientX e - rect_left rect = 100"
    and my: "w_clientY e - rect_top rect = 100"
    by (simp_all add: mousePoint_def)
  show ?thesis
    by (simp add: handleWheel_def Let_def ns mx my minScale_def maxScale_def)
       (simp add: initialViewport_def initialTransform_def)
qed

section \<open>The viewport in IEEE doubles\<close>

lemma newScaleWith_exact:
  "newScaleWith (\<lambda>x. x) e s = newScale e s"
  by (simp add: newScaleWith_def newScale_def)

lemma handleWheelWith_exact:
  "handleWheelWith (\<lambda>x. x) svg e s = handleWheel svg e s"
  by (cases svg)
     (simp_all add: handleWheelWith_def handleWheel_def newScaleWith_exact Let_def)

text \<open>The exponent \<open>binade\<close> finds is the one that brackets the number.\<close>

lemma binade_bounds_large:
  assumes "1 \<le> \<bar>x\<bar>"
  shows "2 powi binade x \<le> \<bar>x\<bar> \<and> \<bar>x\<bar> < 2 powi (binade x + 1)"
proof -
  define n where "n = nat \<lfloor>\<bar>x\<bar>\<rfloor>"
  define l where "l = floorlog 2 n"
  from assms have n: "0 < n" by (simp add: n_def)
  from floorlog_bounds [OF n, of 2]
  have lo: "2 ^ (l - 1) \<le> n" and hi: "n < 2 ^ l"
    by (simp_all add: l_def)
  from n have l: "0 < l"
    by (simp add: l_def floorlog_def)
  have b: "binade x = int l - 1"
    using assms by (simp add: binade_def l_def n_def)
  have nx: "real n \<le> \<bar>x\<bar>" and xn: "\<bar>x\<bar> < real n + 1"
    using assms by (simp_all add: n_def)
  from l have eq: "int l - 1 = int (l - 1)" by simp
  have p1: "2 powi (int l - 1) = (2::real) ^ (l - 1)"
    unfolding eq by (rule power_int_of_nat)
  have p2: "(2::real) ^ (l - 1) \<le> real n"
    using lo of_nat_mono [of "2 ^ (l - 1)" n, where 'a = real] by simp
  have p3: "real n + 1 \<le> 2 ^ l"
    using hi of_nat_mono [of "Suc n" "2 ^ l", where 'a = real] by simp
  have p4: "2 powi (int l - 1 + 1) = (2::real) ^ l"
    by (simp add: power_int_of_nat)
  from p1 p2 nx have "2 powi binade x \<le> \<bar>x\<bar>"
    unfolding b by linarith
  moreover from p3 p4 xn have "\<bar>x\<bar> < 2 powi (binade x + 1)"
    unfolding b by linarith
  ultimately show ?thesis ..
qed

lemma binade_bounds_small:
  assumes "x \<noteq> 0" and "\<bar>x\<bar> < 1"
  shows "2 powi binade x \<le> \<bar>x\<bar> \<and> \<bar>x\<bar> < 2 powi (binade x + 1)"
proof -
  define y where "y = 1 / \<bar>x\<bar>"
  define n where "n = nat (\<lceil>y\<rceil> - 1)"
  define l where "l = floorlog 2 n"
  from assms have y: "1 < y" by (simp add: y_def)
  then have c: "2 \<le> \<lceil>y\<rceil>" by linarith
  then have n: "0 < n" by (simp add: n_def)
  from floorlog_bounds [OF n, of 2]
  have lo: "2 ^ (l - 1) \<le> n" and hi: "n < 2 ^ l"
    by (simp_all add: l_def)
  from n have l: "0 < l"
    by (simp add: l_def floorlog_def)
  have b: "binade x = - int l"
    using assms by (simp add: binade_def l_def n_def y_def)
  from c have rn: "real n = of_int \<lceil>y\<rceil> - 1"
    by (simp add: n_def)
  have ny: "real n < y" and yn: "y \<le> real n + 1"
    unfolding rn by linarith+
  have p2: "(2::real) ^ (l - 1) \<le> real n"
    using lo of_nat_mono [of "2 ^ (l - 1)" n, where 'a = real] by simp
  have p3: "real n + 1 \<le> 2 ^ l"
    using hi of_nat_mono [of "Suc n" "2 ^ l", where 'a = real] by simp
  from yn p3 have yhi: "y \<le> 2 ^ l" by linarith
  from ny p2 have ylo: "2 ^ (l - 1) < y" by linarith
  have x: "\<bar>x\<bar> = 1 / y" and xpos: "0 < \<bar>x\<bar>"
    using assms by (simp_all add: y_def)
  have "2 powi (- int l) = 1 / (2::real) ^ l"
    by (simp add: power_int_minus power_int_of_nat divide_inverse)
  moreover have "1 / (2::real) ^ l \<le> 1 / y"
    using yhi y by (simp add: frac_le)
  ultimately have low: "2 powi binade x \<le> \<bar>x\<bar>"
    unfolding b x by simp
  from l have eq: "- int l + 1 = - int (l - 1)" by simp
  have "2 powi (- int l + 1) = 1 / (2::real) ^ (l - 1)"
    unfolding eq by (simp add: power_int_minus power_int_of_nat divide_inverse)
  moreover have "1 / y < 1 / (2::real) ^ (l - 1)"
    using ylo by (simp add: frac_less2)
  ultimately have "\<bar>x\<bar> < 2 powi (binade x + 1)"
    unfolding b x by simp
  with low show ?thesis ..
qed

lemma binade_bounds:
  "x \<noteq> 0 \<Longrightarrow> 2 powi binade x \<le> \<bar>x\<bar> \<and> \<bar>x\<bar> < 2 powi (binade x + 1)"
  using binade_bounds_large [of x] binade_bounds_small [of x]
  by (cases "1 \<le> \<bar>x\<bar>") simp_all

text \<open>
  The rounding moves a number by half a unit in the last place at most, and leaves a
  multiple of that unit where it is.
\<close>

lemma roundHalfEven_error:
  "\<bar>of_int (roundHalfEven m) - m\<bar> \<le> 1 / 2"
  by (simp add: roundHalfEven_def)

lemma ulp_positive: "0 < ulp x"
  by (simp add: ulp_def)

lemma round64_error:
  "\<bar>round64 x - x\<bar> \<le> ulp x / 2"
proof (cases "x = 0")
  case True
  with ulp_positive [of x] show ?thesis
    by (simp add: round64_def)
next
  case False
  have "round64 x - x = (of_int (roundHalfEven (x / ulp x)) - x / ulp x) * ulp x"
    using False ulp_positive [of x] by (simp add: round64_def algebra_simps)
  then have "\<bar>round64 x - x\<bar> = \<bar>of_int (roundHalfEven (x / ulp x)) - x / ulp x\<bar> * ulp x"
    using ulp_positive [of x] by (simp add: abs_mult)
  also have "\<dots> \<le> 1 / 2 * ulp x"
    using roundHalfEven_error [of "x / ulp x"] ulp_positive [of x]
    by (intro mult_right_mono) simp_all
  finally show ?thesis by simp
qed

lemma round64_representable:
  assumes "x = of_int m * ulp x"
  shows "round64 x = x"
proof (cases "x = 0")
  case True
  then show ?thesis by (simp add: round64_def)
next
  case False
  from assms ulp_positive [of x] have "x / ulp x = of_int m"
    by (simp add: field_simps)
  then have "roundHalfEven (x / ulp x) = m"
    by (simp add: roundHalfEven_def)
  with assms False show ?thesis
    by (simp add: round64_def)
qed

text \<open>
  On a given number the rounding is evaluated from its definition. Three of the values
  the scenario runs into: the literals \<open>0.1\<close> and \<open>1.1\<close>, and the product
  \<open>100 * 1.1\<close>.
\<close>

lemmas round64_eval =
  round64_def ulp_def binade_def compute_floorlog roundHalfEven_def power_int_minus

lemma round64_values:
  "round64 (1 / 10) = 3602879701896397 / 2 ^ 55"
  "round64 (11 / 10) = 4953959590107546 / 2 ^ 52"
  "round64 (100 * (4953959590107546 / 2 ^ 52)) = 110 + 1 / 2 ^ 46"
  by (simp_all add: round64_eval)

lemma newScaleWith_zoom_in:
  assumes "deltaY e < 0"
  shows "newScaleWith round64 e initialViewport = 4953959590107546 / 2 ^ 52"
  using assms
  by (simp add: newScaleWith_def scaleAmount_def initialViewport_def initialTransform_def
      round64_eval)

lemma handleWheelWith_zoom_in:
  assumes "deltaY e < 0"
    and "round64 (w_clientX e - rect_left rect) = 100"
    and "round64 (w_clientY e - rect_top rect) = 100"
  shows "transform (handleWheelWith round64 (Some rect) e initialViewport)
           = \<lparr>tr_x = - (10 + 1 / 2 ^ 46), tr_y = - (10 + 1 / 2 ^ 46),
              tr_k = 4953959590107546 / 2 ^ 52\<rparr>"
proof -
  have k: "tr_k (transform initialViewport) = 1"
    and x: "tr_x (transform initialViewport) = 0"
    and y: "tr_y (transform initialViewport) = 0"
    by (simp_all add: initialViewport_def initialTransform_def)
  show ?thesis
    unfolding handleWheelWith_def Let_def option.case assms(2,3)
      newScaleWith_zoom_in [OF assms(1)] k x y
    by (simp add: minScale_def maxScale_def round64_eval)
qed

text \<open>
  C8 fails on the code as JavaScript computes it: the product \<open>100 * 1.1\<close> rounds to
  \<open>110.00000000000001\<close>, so the stored translation is \<open>-10.000000000000014\<close>, not
  \<open>-10\<close>.
\<close>

theorem zoom_in_doubles_counterexample:
  "tr_x (transform (handleWheelWith round64 (Some \<lparr>rect_left = 0, rect_top = 0\<rparr>)
          \<lparr>w_clientX = 100, w_clientY = 100, deltaY = - 100\<rparr> initialViewport))
     = - (10 + 1 / 2 ^ 46)
   \<and> tr_x (transform (handleWheelWith round64 (Some \<lparr>rect_left = 0, rect_top = 0\<rparr>)
          \<lparr>w_clientX = 100, w_clientY = 100, deltaY = - 100\<rparr> initialViewport))
     \<noteq> - 10
   \<and> tr_y (transform (handleWheelWith round64 (Some \<lparr>rect_left = 0, rect_top = 0\<rparr>)
          \<lparr>w_clientX = 100, w_clientY = 100, deltaY = - 100\<rparr> initialViewport))
     \<noteq> - 10"
proof -
  have "transform (handleWheelWith round64 (Some \<lparr>rect_left = 0, rect_top = 0\<rparr>)
          \<lparr>w_clientX = 100, w_clientY = 100, deltaY = - 100\<rparr> initialViewport)
        = \<lparr>tr_x = - (10 + 1 / 2 ^ 46), tr_y = - (10 + 1 / 2 ^ 46),
           tr_k = 4953959590107546 / 2 ^ 52\<rparr>"
    by (rule handleWheelWith_zoom_in) (simp_all add: round64_eval)
  then show ?thesis by simp
qed

text \<open>
  C8, as the code has it. From the initial transform \<open>{x: 0, y: 0, k: 1}\<close>, one zoom-in
  step (a wheel event with negative \<open>deltaY\<close>) at screen point \<open>(100, 100)\<close>, computed in
  doubles, gives the scale \<open>1.1\<close> (the double nearest to \<open>11/10\<close>, which is what the
  literal \<open>1.1\<close> denotes) and the translation \<open>x = y = -(10 + 2 powi (-46))\<close>, that is
  \<open>-10.000000000000014\<close>: \<open>-10\<close> up to the rounding of \<open>100 * 1.1\<close>. Under that
  transform the world point \<open>(100, 100)\<close> renders at the screen point \<open>(100, 100)\<close>
  when the product and the sum of the render are computed in doubles too, and within
  \<open>2 powi (-46)\<close> of it in exact arithmetic.
\<close>

theorem zoom_in_scenario_doubles:
  assumes "deltaY e < 0"
    and "round64 (w_clientX e - rect_left rect) = 100"
    and "round64 (w_clientY e - rect_top rect) = 100"
  shows "transform (handleWheelWith round64 (Some rect) e initialViewport)
           = \<lparr>tr_x = - (10 + 1 / 2 ^ 46), tr_y = - (10 + 1 / 2 ^ 46),
              tr_k = round64 (11 / 10)\<rparr>
         \<and> \<bar>tr_x (transform (handleWheelWith round64 (Some rect) e initialViewport)) - (- 10)\<bar>
             = 1 / 2 ^ 46
         \<and> \<bar>tr_y (transform (handleWheelWith round64 (Some rect) e initialViewport)) - (- 10)\<bar>
             = 1 / 2 ^ 46
         \<and> worldToScreenWith round64
              (transform (handleWheelWith round64 (Some rect) e initialViewport))
              \<lparr>pt_x = 100, pt_y = 100\<rparr> = \<lparr>pt_x = 100, pt_y = 100\<rparr>
         \<and> \<bar>pt_x (worldToScreen
                (transform (handleWheelWith round64 (Some rect) e initialViewport))
                \<lparr>pt_x = 100, pt_y = 100\<rparr>) - 100\<bar> < 1 / 2 ^ 46
         \<and> \<bar>pt_y (worldToScreen
                (transform (handleWheelWith round64 (Some rect) e initialViewport))
                \<lparr>pt_x = 100, pt_y = 100\<rparr>) - 100\<bar> < 1 / 2 ^ 46"
  unfolding handleWheelWith_zoom_in [OF assms]
  by (simp add: worldToScreenWith_def worldToScreen_def round64_eval)

theorem zoom_in_scenario_doubles_witness:
  "deltaY \<lparr>w_clientX = 100, w_clientY = 100, deltaY = - 100\<rparr> < 0
   \<and> round64 (w_clientX \<lparr>w_clientX = 100, w_clientY = 100, deltaY = - 100\<rparr>
        - rect_left \<lparr>rect_left = 0, rect_top = 0\<rparr>) = 100
   \<and> round64 (w_clientY \<lparr>w_clientX = 100, w_clientY = 100, deltaY = - 100\<rparr>
        - rect_top \<lparr>rect_left = 0, rect_top = 0\<rparr>) = 100
   \<and> transform (handleWheelWith round64 (Some \<lparr>rect_left = 0, rect_top = 0\<rparr>)
        \<lparr>w_clientX = 100, w_clientY = 100, deltaY = - 100\<rparr> initialViewport)
       = \<lparr>tr_x = - (10 + 1 / 2 ^ 46), tr_y = - (10 + 1 / 2 ^ 46),
          tr_k = 4953959590107546 / 2 ^ 52\<rparr>"
proof -
  have d: "deltaY \<lparr>w_clientX = 100, w_clientY = 100, deltaY = - 100\<rparr> < 0"
    by simp
  have mx: "round64 (w_clientX \<lparr>w_clientX = 100, w_clientY = 100, deltaY = - 100\<rparr>
        - rect_left \<lparr>rect_left = 0, rect_top = 0\<rparr>) = 100"
    and my: "round64 (w_clientY \<lparr>w_clientX = 100, w_clientY = 100, deltaY = - 100\<rparr>
        - rect_top \<lparr>rect_left = 0, rect_top = 0\<rparr>) = 100"
    by (simp_all add: round64_eval)
  from zoom_in_scenario_doubles [OF d mx my] d mx my show ?thesis
    by (simp add: round64_eval)
qed

section \<open>Panning\<close>

lemma handleMouseMove_idle:
  "\<not> isPanning s \<Longrightarrow> handleMouseMove e s = s"
  by (simp add: handleMouseMove_def)

lemma moves_idle:
  "\<not> isPanning s \<Longrightarrow> moves es s = s"
  by (induction es) (simp_all add: handleMouseMove_idle)

text \<open>
  C9. Ending a pan (\<open>handleMouseUp\<close>, which also serves mouse-leave) twice is the same
  as ending it once, and after it any sequence of mouse moves leaves the state, and so
  the transform, as it was.
\<close>

theorem endPan_idempotent:
  "handleMouseUp (handleMouseUp s) = handleMouseUp s
   \<and> moves es (handleMouseUp s) = handleMouseUp s
   \<and> transform (moves es (handleMouseUp s)) = transform s"
proof -
  have idle: "\<not> isPanning (handleMouseUp s)"
    by (simp add: handleMouseUp_def)
  have "handleMouseUp (handleMouseUp s) = handleMouseUp s"
    by (simp add: handleMouseUp_def)
  moreover from idle have "moves es (handleMouseUp s) = handleMouseUp s"
    by (rule moves_idle)
  moreover have "transform (handleMouseUp s) = transform s"
    by (simp add: handleMouseUp_def)
  ultimately show ?thesis by simp
qed

section \<open>Properties of the selection state\<close>

text \<open>
  C3. Selection precedence. The component to show is the pinned one whenever one is
  pinned, whatever is hovered; with no pin it is the hovered one; with neither it is
  none.
\<close>

theorem selection_precedence:
  "(pinnedComponent s = Some p \<longrightarrow> componentToShow s = Some p)
   \<and> (pinnedComponent s = None \<longrightarrow> componentToShow s = hoveredComponent s)
   \<and> (pinnedComponent s = None \<longrightarrow> hoveredComponent s = None \<longrightarrow> componentToShow s = None)"
  by (simp add: componentToShow_def)

theorem selection_precedence_witness:
  "pinnedComponent (initialViewer\<lparr>hoveredComponent := Some arrowHolds,
                                  pinnedComponent := Some arrowCreates\<rparr>) = Some arrowCreates
   \<and> componentToShow (initialViewer\<lparr>hoveredComponent := Some arrowHolds,
                                     pinnedComponent := Some arrowCreates\<rparr>) = Some arrowCreates
   \<and> pinnedComponent (initialViewer\<lparr>hoveredComponent := Some arrowHolds\<rparr>) = None
   \<and> componentToShow (initialViewer\<lparr>hoveredComponent := Some arrowHolds\<rparr>) = Some arrowHolds
   \<and> hoveredComponent initialViewer = None
   \<and> componentToShow initialViewer = None"
  using selection_precedence
      [of "initialViewer\<lparr>hoveredComponent := Some arrowHolds,
                          pinnedComponent := Some arrowCreates\<rparr>" arrowCreates]
    selection_precedence [of "initialViewer\<lparr>hoveredComponent := Some arrowHolds\<rparr>"]
    selection_precedence [of initialViewer]
  by (simp add: initialViewer_def)

lemma clearHoverTimeout_frame:
  "hoveredComponent (clearHoverTimeout s) = hoveredComponent s"
  "pinnedComponent (clearHoverTimeout s) = pinnedComponent s"
  "nextHandle (clearHoverTimeout s) = nextHandle s"
  by (simp_all add: clearHoverTimeout_def split: option.split)

lemma handlePinComponent_pinned:
  "pinnedComponent (handlePinComponent x s) =
     (if sameId (pinnedComponent s) x then None else Some x)"
  by (simp add: handlePinComponent_def Let_def clearHoverTimeout_frame)

lemma handlePinComponent_hovered:
  "hoveredComponent (handlePinComponent x s) = hoveredComponent s"
  by (simp add: handlePinComponent_def Let_def clearHoverTimeout_frame)

text \<open>
  C4, as the code has it. A click on \<open>x\<close> clears the pin when the pinned component has
  the id of \<open>x\<close>, and pins \<open>x\<close> otherwise. Two clicks on \<open>x\<close> in a row leave no pin
  when \<open>x\<close> was not pinned before them, and leave \<open>x\<close> pinned when it was.
\<close>

theorem togglePin_pair:
  "(sameId (pinnedComponent s) x \<longrightarrow> pinnedComponent (handlePinComponent x s) = None)
   \<and> (\<not> sameId (pinnedComponent s) x \<longrightarrow> pinnedComponent (handlePinComponent x s) = Some x)
   \<and> (\<not> sameId (pinnedComponent s) x \<longrightarrow>
        pinnedComponent (handlePinComponent x (handlePinComponent x s)) = None)
   \<and> (sameId (pinnedComponent s) x \<longrightarrow>
        pinnedComponent (handlePinComponent x (handlePinComponent x s)) = Some x)"
  by (simp add: handlePinComponent_pinned sameId_def)

theorem togglePin_pair_witness:
  "\<not> sameId (pinnedComponent (initialViewer\<lparr>pinnedComponent := Some arrowHolds\<rparr>)) arrowCreates
   \<and> pinnedComponent (handlePinComponent arrowCreates
         (initialViewer\<lparr>pinnedComponent := Some arrowHolds\<rparr>)) = Some arrowCreates
   \<and> pinnedComponent (handlePinComponent arrowCreates (handlePinComponent arrowCreates
         (initialViewer\<lparr>pinnedComponent := Some arrowHolds\<rparr>))) = None
   \<and> sameId (pinnedComponent (initialViewer\<lparr>pinnedComponent := Some arrowCreates\<rparr>)) arrowCreates
   \<and> pinnedComponent (handlePinComponent arrowCreates
         (initialViewer\<lparr>pinnedComponent := Some arrowCreates\<rparr>)) = None"
  using togglePin_pair [of "initialViewer\<lparr>pinnedComponent := Some arrowHolds\<rparr>" arrowCreates]
    togglePin_pair [of "initialViewer\<lparr>pinnedComponent := Some arrowCreates\<rparr>" arrowCreates]
  by (simp add: sameId_def arrowCreates_def arrowHolds_def)

text \<open>
  The claim's last part fails where \<open>x\<close> is pinned already: after one click on
  \<open>arrow-creates\<close> from the initial state it is pinned, and after two more it is
  pinned again.
\<close>

theorem togglePin_pair_counterexample:
  "pinnedComponent (handlePinComponent arrowCreates initialViewer) = Some arrowCreates
   \<and> pinnedComponent
        (handlePinComponent arrowCreates
          (handlePinComponent arrowCreates
            (handlePinComponent arrowCreates initialViewer))) \<noteq> None"
  by (simp add: handlePinComponent_pinned sameId_def initialViewer_def)

text \<open>
  C10. Neither a click nor closing the pane changes the hovered component. So when a
  click un-pins, or the pane is closed, the component to show is the hovered one again.
\<close>

theorem pin_preserves_hover:
  "hoveredComponent (handlePinComponent x s) = hoveredComponent s
   \<and> hoveredComponent (handleClosePane s) = hoveredComponent s
   \<and> componentToShow (handleClosePane s) = hoveredComponent s
   \<and> (sameId (pinnedComponent s) x \<longrightarrow>
        componentToShow (handlePinComponent x s) = hoveredComponent s)"
  by (simp add: handlePinComponent_hovered handlePinComponent_pinned handleClosePane_def
      componentToShow_def)

theorem pin_preserves_hover_witness:
  "sameId (pinnedComponent (initialViewer\<lparr>hoveredComponent := Some arrowHolds,
                                           pinnedComponent := Some arrowCreates\<rparr>)) arrowCreates
   \<and> componentToShow (initialViewer\<lparr>hoveredComponent := Some arrowHolds,
                                     pinnedComponent := Some arrowCreates\<rparr>) = Some arrowCreates
   \<and> componentToShow (handlePinComponent arrowCreates
         (initialViewer\<lparr>hoveredComponent := Some arrowHolds,
                         pinnedComponent := Some arrowCreates\<rparr>)) = Some arrowHolds"
  using pin_preserves_hover
      [of arrowCreates "initialViewer\<lparr>hoveredComponent := Some arrowHolds,
                                       pinnedComponent := Some arrowCreates\<rparr>"]
  by (simp add: sameId_def componentToShow_def)

section \<open>The hover-clear timer\<close>

lemma single_slot_initial: "single_slot initialViewer"
  by (simp add: single_slot_def initialViewer_def)

lemma single_slot_cases:
  assumes "single_slot s"
  obtains "activeTimers s = []" and "0 < nextHandle s"
  | h where "activeTimers s = [h]" and "hoverTimeoutRef s = Some h" and "0 < h"
      and "0 < nextHandle s"
  using assms by (auto simp: single_slot_def split: list.splits)

lemma clearHoverTimeout_disarms:
  assumes "single_slot s"
  shows "activeTimers (clearHoverTimeout s) = []"
  using assms
proof (cases rule: single_slot_cases)
  case 1
  then show ?thesis
    by (simp add: clearHoverTimeout_def split: option.split)
next
  case (2 h)
  then show ?thesis
    by (simp add: clearHoverTimeout_def)
qed

lemma single_slot_clearHoverTimeout:
  assumes "single_slot s"
  shows "single_slot (clearHoverTimeout s)"
  using assms clearHoverTimeout_disarms [OF assms]
  by (simp add: single_slot_def clearHoverTimeout_frame)

lemma hoverEnter_state:
  assumes "single_slot s"
  shows "activeTimers (handleHoverComponent (Some c) s) = []"
    and "hoveredComponent (handleHoverComponent (Some c) s) = Some c"
    and "nextHandle (handleHoverComponent (Some c) s) = nextHandle s"
  using clearHoverTimeout_disarms [OF assms]
  by (simp_all add: handleHoverComponent_def Let_def clearHoverTimeout_frame)

lemma hoverLeave_state:
  assumes "single_slot s"
  shows "activeTimers (handleHoverComponent None s) = [nextHandle s]"
    and "hoverTimeoutRef (handleHoverComponent None s) = Some (nextHandle s)"
    and "nextHandle (handleHoverComponent None s) = Suc (nextHandle s)"
    and "hoveredComponent (handleHoverComponent None s) = hoveredComponent s"
  using clearHoverTimeout_disarms [OF assms]
  by (simp_all add: handleHoverComponent_def Let_def clearHoverTimeout_frame)

lemma single_slot_hover:
  assumes "single_slot s"
  shows "single_slot (handleHoverComponent component s)"
proof (cases component)
  case None
  from assms have "0 < nextHandle s" by (simp add: single_slot_def)
  with hoverLeave_state [OF assms] None show ?thesis
    by (simp add: single_slot_def)
next
  case (Some c)
  from assms have "0 < nextHandle s" by (simp add: single_slot_def)
  with hoverEnter_state [OF assms, of c] Some show ?thesis
    by (simp add: single_slot_def)
qed

lemma single_slot_pin:
  assumes "single_slot s"
  shows "single_slot (handlePinComponent x s)"
  using assms clearHoverTimeout_disarms [OF assms]
  by (simp add: handlePinComponent_def Let_def single_slot_def clearHoverTimeout_frame)

lemma single_slot_close:
  "single_slot s \<Longrightarrow> single_slot (handleClosePane s)"
  by (simp add: handleClosePane_def single_slot_def split: list.splits)

lemma single_slot_fires:
  assumes "single_slot s"
  shows "single_slot (timerFires h s)"
  using assms
proof (cases rule: single_slot_cases)
  case 1
  then show ?thesis
    by (simp add: timerFires_def single_slot_def)
next
  case (2 h')
  then show ?thesis
    by (simp add: timerFires_def single_slot_def)
qed

lemma single_slot_step:
  "single_slot s \<Longrightarrow> single_slot (step ev s)"
  by (cases ev)
     (simp_all add: single_slot_hover single_slot_pin single_slot_close
        single_slot_clearHoverTimeout single_slot_fires)

lemma single_slot_run:
  "single_slot s \<Longrightarrow> single_slot (run evs s)"
  by (induction evs arbitrary: s) (simp_all add: single_slot_step)

text \<open>
  A handle below the counter that is not armed stays so: the counter never goes down,
  and a timer is armed under the counter's value only.
\<close>

lemma retired_clearHoverTimeout:
  assumes "h < nextHandle s" and "h \<notin> set (activeTimers s)"
  shows "h < nextHandle (clearHoverTimeout s) \<and> h \<notin> set (activeTimers (clearHoverTimeout s))"
  using assms by (simp add: clearHoverTimeout_def split: option.split)

lemma retired_hover:
  assumes "h < nextHandle s" and "h \<notin> set (activeTimers s)"
  shows "h < nextHandle (handleHoverComponent component s)
         \<and> h \<notin> set (activeTimers (handleHoverComponent component s))"
  using retired_clearHoverTimeout [OF assms]
  by (cases component) (auto simp: handleHoverComponent_def Let_def)

lemma retired_step:
  assumes "h < nextHandle s" and "h \<notin> set (activeTimers s)"
  shows "h < nextHandle (step ev s) \<and> h \<notin> set (activeTimers (step ev s))"
proof (cases ev)
  case (Click x)
  with retired_clearHoverTimeout [OF assms] show ?thesis
    by (simp add: handlePinComponent_def Let_def)
next
  case ClosePane
  with assms show ?thesis by (simp add: handleClosePane_def)
next
  case PaneEnter
  with retired_clearHoverTimeout [OF assms] show ?thesis by simp
next
  case (TimerFires h')
  with assms show ?thesis by (simp add: timerFires_def)
qed (use retired_hover [OF assms] in simp_all)

lemma retired_run:
  "h < nextHandle s \<Longrightarrow> h \<notin> set (activeTimers s) \<Longrightarrow>
   h \<notin> set (activeTimers (run evs s))"
proof (induction evs arbitrary: s)
  case Nil
  then show ?case by simp
next
  case (Cons ev evs)
  from retired_step [OF Cons.prems, of ev] show ?case
    by (simp add: Cons.IH)
qed

text \<open>
  C5. The hover-clear timer is single-slot. In every state \<open>s\<close> reached from the
  initial one at most one timer is armed. A hover-leave in \<open>s\<close> leaves exactly the timer
  it arms, whose handle the ref holds. A hover-enter of \<open>y\<close> right after it makes \<open>y\<close>
  the hovered component and leaves no timer armed; the handle of the timer the
  hover-leave armed is never armed again, whatever events follow, so its callback never
  runs: a run-out of it, at any later moment, changes nothing.
\<close>

theorem debounce_single_slot:
  assumes "s = run evs initialViewer"
    and "s1 = handleHoverComponent None s"
    and "s2 = handleHoverComponent (Some y) s1"
  shows "length (activeTimers s) \<le> 1
         \<and> activeTimers s1 = [nextHandle s]
         \<and> hoverTimeoutRef s1 = Some (nextHandle s)
         \<and> hoveredComponent s2 = Some y
         \<and> activeTimers s2 = []
         \<and> nextHandle s \<notin> set (activeTimers (run later s2))
         \<and> timerFires (nextHandle s) (run later s2) = run later s2"
proof -
  have inv: "single_slot s"
    unfolding assms(1) by (rule single_slot_run) (rule single_slot_initial)
  then have one: "length (activeTimers s) \<le> 1"
    by (cases rule: single_slot_cases) simp_all
  have inv1: "single_slot s1"
    unfolding assms(2) using inv by (rule single_slot_hover)
  have armed: "activeTimers s1 = [nextHandle s]"
    and ref: "hoverTimeoutRef s1 = Some (nextHandle s)"
    and next1: "nextHandle s1 = Suc (nextHandle s)"
    unfolding assms(2) by (rule hoverLeave_state [OF inv])+
  have hov: "hoveredComponent s2 = Some y"
    and none: "activeTimers s2 = []"
    and next2: "nextHandle s2 = nextHandle s1"
    unfolding assms(3) by (rule hoverEnter_state [OF inv1])+
  have "nextHandle s < nextHandle s2"
    by (simp add: next1 next2)
  moreover have "nextHandle s \<notin> set (activeTimers s2)"
    by (simp add: none)
  ultimately have never: "nextHandle s \<notin> set (activeTimers (run later s2))"
    by (rule retired_run)
  then have "timerFires (nextHandle s) (run later s2) = run later s2"
    by (simp add: timerFires_def)
  with one armed ref hov none never show ?thesis by simp
qed

theorem debounce_single_slot_witness:
  "run [HoverEnter arrowCreates, HoverLeave] initialViewer
     = \<lparr>hoveredComponent = Some arrowCreates, pinnedComponent = None,
        hoverTimeoutRef = Some 1, activeTimers = [1], nextHandle = 2\<rparr>
   \<and> handleHoverComponent None (run [HoverEnter arrowCreates, HoverLeave] initialViewer)
     = \<lparr>hoveredComponent = Some arrowCreates, pinnedComponent = None,
        hoverTimeoutRef = Some 2, activeTimers = [2], nextHandle = 3\<rparr>
   \<and> handleHoverComponent (Some arrowHolds)
       (handleHoverComponent None (run [HoverEnter arrowCreates, HoverLeave] initialViewer))
     = \<lparr>hoveredComponent = Some arrowHolds, pinnedComponent = None,
        hoverTimeoutRef = None, activeTimers = [], nextHandle = 3\<rparr>
   \<and> hoveredComponent
       (run [TimerFires 2, Click arrowCreates, TimerFires 1]
         (handleHoverComponent (Some arrowHolds)
           (handleHoverComponent None
             (run [HoverEnter arrowCreates, HoverLeave] initialViewer))))
     = Some arrowHolds"
proof -
  have s: "run [HoverEnter arrowCreates, HoverLeave] initialViewer
     = \<lparr>hoveredComponent = Some arrowCreates, pinnedComponent = None,
        hoverTimeoutRef = Some 1, activeTimers = [1], nextHandle = 2\<rparr>"
    by (simp add: handleHoverComponent_def clearHoverTimeout_def initialViewer_def Let_def)
  have s1: "handleHoverComponent None
       \<lparr>hoveredComponent = Some arrowCreates, pinnedComponent = None,
        hoverTimeoutRef = Some 1, activeTimers = [1], nextHandle = 2\<rparr>
     = \<lparr>hoveredComponent = Some arrowCreates, pinnedComponent = None,
        hoverTimeoutRef = Some 2, activeTimers = [2], nextHandle = 3\<rparr>"
    by (simp add: handleHoverComponent_def clearHoverTimeout_def Let_def)
  have s2: "handleHoverComponent (Some arrowHolds)
       \<lparr>hoveredComponent = Some arrowCreates, pinnedComponent = None,
        hoverTimeoutRef = Some 2, activeTimers = [2], nextHandle = 3\<rparr>
     = \<lparr>hoveredComponent = Some arrowHolds, pinnedComponent = None,
        hoverTimeoutRef = None, activeTimers = [], nextHandle = 3\<rparr>"
    by (simp add: handleHoverComponent_def clearHoverTimeout_def Let_def)
  have later: "hoveredComponent
       (run [TimerFires 2, Click arrowCreates, TimerFires 1]
         \<lparr>hoveredComponent = Some arrowHolds, pinnedComponent = None,
          hoverTimeoutRef = None, activeTimers = [], nextHandle = 3\<rparr>)
     = Some arrowHolds"
    by (simp add: timerFires_def handlePinComponent_def clearHoverTimeout_def Let_def)
  note debounce_single_slot
      [OF refl refl refl, of "[HoverEnter arrowCreates, HoverLeave]" arrowHolds
        "[TimerFires 2, Click arrowCreates, TimerFires 1]"]
  then show ?thesis
    unfolding s s1 s2 later by simp
qed

section \<open>Components that are not in the diagram\<close>

lemma handleHoverComponent_enter:
  "hoveredComponent (handleHoverComponent (Some c) s) = Some c"
  "pinnedComponent (handleHoverComponent (Some c) s) = pinnedComponent s"
  by (simp_all add: handleHoverComponent_def Let_def clearHoverTimeout_frame)

lemma detailPanel_placeholder:
  "(detailPanel s = PatternDetailsPanel) = (pinnedComponent s = None \<and> hoveredComponent s = None)"
  by (simp add: detailPanel_def componentToShow_def split: option.split)

text \<open>
  C6 fails on the code: the handlers take a component, not an id, and look nothing up.
  With the diagram holding \<open>arrow-creates\<close> only, a hover-enter of \<open>arrow-holds\<close>
  makes it the component to show, and the code pane is mounted for it.
\<close>

theorem unknown_component_counterexample:
  "c_id arrowHolds \<notin> c_id ` set (components createsOnly)
   \<and> componentToShow (handleHoverComponent (Some arrowHolds) initialViewer) = Some arrowHolds
   \<and> detailPanel (handleHoverComponent (Some arrowHolds) initialViewer)
       = CodePanePanel arrowHolds False
   \<and> componentToShow (handlePinComponent arrowHolds initialViewer) = Some arrowHolds
   \<and> detailPanel (handlePinComponent arrowHolds initialViewer)
       = CodePanePanel arrowHolds True"
  by (simp add: createsOnly_def componentToShow_def detailPanel_def handleHoverComponent_enter
      handlePinComponent_pinned sameId_def initialViewer_def)
     (simp add: arrowCreates_def arrowHolds_def)

text \<open>
  C6, as the code has it. A component whose id is not in the diagram's list is treated
  like any other. After a hover-enter of it the component to show is the pinned one if
  there is one and the entered one otherwise, so the code pane is mounted, not the
  placeholder. After a click on it, it is the component to show unless the click
  un-pinned it. The placeholder (the pattern's details) is mounted exactly when nothing
  is pinned and nothing is hovered. And the diagram never hands such a component to the
  handlers: every component it attaches callbacks to is an entry of its list.
\<close>

theorem unknown_component_shown:
  assumes "c_id c \<notin> c_id ` set (components d)"
  shows "componentToShow (handleHoverComponent (Some c) s)
           = (case pinnedComponent s of None \<Rightarrow> Some c | Some p \<Rightarrow> Some p)
         \<and> detailPanel (handleHoverComponent (Some c) s) \<noteq> PatternDetailsPanel
         \<and> componentToShow (handlePinComponent c s)
           = (if sameId (pinnedComponent s) c then hoveredComponent s else Some c)
         \<and> (detailPanel s = PatternDetailsPanel)
           = (pinnedComponent s = None \<and> hoveredComponent s = None)
         \<and> c \<notin> set (interactiveComponents d)"
proof -
  have "componentToShow (handleHoverComponent (Some c) s)
          = (case pinnedComponent s of None \<Rightarrow> Some c | Some p \<Rightarrow> Some p)"
    by (simp add: componentToShow_def handleHoverComponent_enter split: option.split)
  moreover have "detailPanel (handleHoverComponent (Some c) s) \<noteq> PatternDetailsPanel"
    by (simp add: detailPanel_placeholder handleHoverComponent_enter)
  moreover have "componentToShow (handlePinComponent c s)
          = (if sameId (pinnedComponent s) c then hoveredComponent s else Some c)"
    by (simp add: componentToShow_def handlePinComponent_pinned handlePinComponent_hovered)
  moreover have "c \<notin> set (interactiveComponents d)"
  proof
    assume "c \<in> set (interactiveComponents d)"
    then have "c \<in> set (components d)"
      by (simp add: interactiveComponents_def)
    then have "c_id c \<in> c_id ` set (components d)"
      by (rule imageI)
    with assms show False by contradiction
  qed
  ultimately show ?thesis
    by (simp add: detailPanel_placeholder)
qed

theorem unknown_component_shown_witness:
  "c_id arrowHolds \<notin> c_id ` set (components createsOnly)
   \<and> componentToShow (handleHoverComponent (Some arrowHolds) initialViewer) = Some arrowHolds
   \<and> arrowHolds \<notin> set (interactiveComponents createsOnly)
   \<and> arrowCreates \<in> set (interactiveComponents createsOnly)"
proof -
  have absent: "c_id arrowHolds \<notin> c_id ` set (components createsOnly)"
    by (simp add: createsOnly_def arrowCreates_def arrowHolds_def)
  have present: "arrowCreates \<in> set (interactiveComponents createsOnly)"
    by (simp add: interactiveComponents_def createsOnly_def rendersHandlers_def)
       (simp add: arrowCreates_def)
  from unknown_component_shown [OF absent, of initialViewer] absent present
  show ?thesis
    by (simp add: initialViewer_def)
qed

section \<open>Properties of the code pane\<close>

lemma initialSelectedLanguage_first:
  "''java'' \<notin> set (availableLanguages c) \<Longrightarrow> c_code c \<noteq> [] \<Longrightarrow>
   initialSelectedLanguage c = fst (hd (c_code c))"
  by (cases "c_code c") (simp_all add: initialSelectedLanguage_def availableLanguages_def)

text \<open>A pane is mounted exactly while there is a component to show.\<close>

lemma renderCodePane_mounted:
  "(renderCodePane s pane = None) = (componentToShow s = None)"
  by (simp add: renderCodePane_def split: option.split)

lemma clickLanguage_frame:
  "viewerState (clickLanguage lang p) = viewerState p"
  "(selectedLanguage (clickLanguage lang p) = None) = (selectedLanguage p = None)"
  by (simp_all add: clickLanguage_def split: option.split)

lemma pageStep_mounted:
  assumes "(selectedLanguage p = None) = (componentToShow (viewerState p) = None)"
  shows "(selectedLanguage (pageStep ev p) = None)
           = (componentToShow (viewerState (pageStep ev p)) = None)"
proof (cases ev)
  case (ViewerEvent v)
  then show ?thesis by (simp add: renderCodePane_mounted)
next
  case (LanguageClick lang)
  with assms show ?thesis by (simp add: clickLanguage_frame)
qed

lemma pageRun_mounted:
  "(selectedLanguage p = None) = (componentToShow (viewerState p) = None) \<Longrightarrow>
   (selectedLanguage (pageRun evs p) = None)
     = (componentToShow (viewerState (pageRun evs p)) = None)"
  by (induction evs arbitrary: p) (simp_all add: pageStep_mounted)

lemma pane_mounted_iff:
  "(selectedLanguage (pageRun evs initialPage) = None)
     = (componentToShow (viewerState (pageRun evs initialPage)) = None)"
  by (rule pageRun_mounted) (simp add: initialPage_def initialViewer_def componentToShow_def)

text \<open>
  C7 fails on the code in two ways. The selected language is the pane's state and is
  computed when the pane mounts, not for every component to show: the pointer goes onto
  \<open>arrow-creates\<close>, leaves it, and enters a component with the keys \<open>python\<close> and
  \<open>javascript\<close> before the timer runs out; the pane stays mounted, and the selected
  language stays \<open>java\<close>, which is neither a key of that component nor its first key.
  And a pane that mounts for a component whose only key is the empty string selects that
  key, which is falsy, and shows the no-snippet text and no language button, though the
  record is not empty.
\<close>

theorem code_pane_default_counterexample:
  "componentToShow (viewerState (pageRun
       [ViewerEvent (HoverEnter arrowCreates), ViewerEvent HoverLeave,
        ViewerEvent (HoverEnter arrowHoldsNoJava)] initialPage)) = Some arrowHoldsNoJava
   \<and> selectedLanguage (pageRun
       [ViewerEvent (HoverEnter arrowCreates), ViewerEvent HoverLeave,
        ViewerEvent (HoverEnter arrowHoldsNoJava)] initialPage) = Some ''java''
   \<and> availableLanguages arrowHoldsNoJava = [''python'', ''javascript'']
   \<and> paneBody (pageRun
       [ViewerEvent (HoverEnter arrowCreates), ViewerEvent HoverLeave,
        ViewerEvent (HoverEnter arrowHoldsNoJava)] initialPage)
       = Some (LanguageTabs [''python'', ''javascript''] ''java'')
   \<and> c_code arrowHoldsBlankKey \<noteq> []
   \<and> paneBody (pageRun [ViewerEvent (HoverEnter arrowHoldsBlankKey)] initialPage)
       = Some NoCodeSnippet"
proof -
  have sel: "initialSelectedLanguage arrowCreates = ''java''"
    by (simp add: initialSelectedLanguage_def availableLanguages_def arrowCreates_def)
  have keys: "availableLanguages arrowHoldsNoJava = [''python'', ''javascript'']"
    by (simp add: availableLanguages_def arrowHoldsNoJava_def)
  have p1: "pageStep (ViewerEvent (HoverEnter arrowCreates)) initialPage
      = \<lparr>viewerState = initialViewer\<lparr>hoveredComponent := Some arrowCreates\<rparr>,
         selectedLanguage = Some ''java''\<rparr>"
    by (simp add: initialPage_def initialViewer_def handleHoverComponent_def
        clearHoverTimeout_def renderCodePane_def componentToShow_def sel)
  have p2: "pageStep (ViewerEvent HoverLeave)
        \<lparr>viewerState = initialViewer\<lparr>hoveredComponent := Some arrowCreates\<rparr>,
         selectedLanguage = Some ''java''\<rparr>
      = \<lparr>viewerState = \<lparr>hoveredComponent = Some arrowCreates, pinnedComponent = None,
                         hoverTimeoutRef = Some 1, activeTimers = [1], nextHandle = 2\<rparr>,
         selectedLanguage = Some ''java''\<rparr>"
    by (simp add: initialViewer_def handleHoverComponent_def clearHoverTimeout_def
        renderCodePane_def componentToShow_def)
  have p3: "pageStep (ViewerEvent (HoverEnter arrowHoldsNoJava))
        \<lparr>viewerState = \<lparr>hoveredComponent = Some arrowCreates, pinnedComponent = None,
                         hoverTimeoutRef = Some 1, activeTimers = [1], nextHandle = 2\<rparr>,
         selectedLanguage = Some ''java''\<rparr>
      = \<lparr>viewerState = \<lparr>hoveredComponent = Some arrowHoldsNoJava, pinnedComponent = None,
                         hoverTimeoutRef = None, activeTimers = [], nextHandle = 2\<rparr>,
         selectedLanguage = Some ''java''\<rparr>"
    by (simp add: handleHoverComponent_def clearHoverTimeout_def renderCodePane_def
        componentToShow_def)
  have run: "pageRun
       [ViewerEvent (HoverEnter arrowCreates), ViewerEvent HoverLeave,
        ViewerEvent (HoverEnter arrowHoldsNoJava)] initialPage
      = \<lparr>viewerState = \<lparr>hoveredComponent = Some arrowHoldsNoJava, pinnedComponent = None,
                         hoverTimeoutRef = None, activeTimers = [], nextHandle = 2\<rparr>,
         selectedLanguage = Some ''java''\<rparr>"
    unfolding pageRun.simps p1 p2 p3 ..
  have nonempty: "c_code arrowHoldsBlankKey \<noteq> []"
    by (simp add: arrowHoldsBlankKey_def)
  have blank: "initialSelectedLanguage arrowHoldsBlankKey = ''''"
    by (simp add: initialSelectedLanguage_def availableLanguages_def arrowHoldsBlankKey_def)
  have q: "pageRun [ViewerEvent (HoverEnter arrowHoldsBlankKey)] initialPage
      = \<lparr>viewerState = initialViewer\<lparr>hoveredComponent := Some arrowHoldsBlankKey\<rparr>,
         selectedLanguage = Some ''''\<rparr>"
    by (simp add: initialPage_def initialViewer_def handleHoverComponent_def
        clearHoverTimeout_def renderCodePane_def componentToShow_def blank)
  have body: "paneBody
        \<lparr>viewerState = initialViewer\<lparr>hoveredComponent := Some arrowHoldsBlankKey\<rparr>,
         selectedLanguage = Some ''''\<rparr> = Some NoCodeSnippet"
    by (simp add: paneBody_def componentToShow_def initialViewer_def codePaneBody_def
        hasCode_def)
  show ?thesis
    unfolding run q body
    by (simp add: componentToShow_def paneBody_def codePaneBody_def hasCode_def keys nonempty)
qed

text \<open>
  C7, as the code has it. Let \<open>c\<close> be the component to show. A pane that mounts for
  \<open>c\<close> selects \<open>java\<close> when that is a key of the \<open>code\<close> record of \<open>c\<close>, and
  otherwise the first key in the record's iteration order. A pane that is mounted already
  keeps the language it has. With the selected language \<open>selected\<close>, the pane shows
  the keys of the record as its language tags whenever the record is not empty and
  \<open>selected\<close> is not the empty string; when the record is empty, and also when
  \<open>selected\<close> is the empty string, it shows the no-snippet text.
\<close>

theorem code_pane_selection:
  assumes "componentToShow s = Some c"
  shows "renderCodePane s None = Some (initialSelectedLanguage c)
         \<and> (''java'' \<in> fst ` set (c_code c) \<longrightarrow> initialSelectedLanguage c = ''java'')
         \<and> (''java'' \<notin> fst ` set (c_code c) \<longrightarrow> c_code c \<noteq> [] \<longrightarrow>
              initialSelectedLanguage c = fst (hd (c_code c)))
         \<and> renderCodePane s (Some selected) = Some selected
         \<and> (c_code c \<noteq> [] \<longrightarrow> selected \<noteq> '''' \<longrightarrow>
              codePaneBody c selected = LanguageTabs (map fst (c_code c)) selected)
         \<and> (c_code c = [] \<or> selected = '''' \<longrightarrow> codePaneBody c selected = NoCodeSnippet)"
proof -
  have keys: "set (availableLanguages c) = fst ` set (c_code c)"
    by (simp add: availableLanguages_def)
  have "renderCodePane s None = Some (initialSelectedLanguage c)"
    and "renderCodePane s (Some selected) = Some selected"
    using assms by (simp_all add: renderCodePane_def)
  moreover have "''java'' \<in> fst ` set (c_code c) \<longrightarrow> initialSelectedLanguage c = ''java''"
    unfolding keys [symmetric] by (simp add: initialSelectedLanguage_def)
  moreover have "''java'' \<notin> fst ` set (c_code c) \<longrightarrow> c_code c \<noteq> [] \<longrightarrow>
        initialSelectedLanguage c = fst (hd (c_code c))"
    unfolding keys [symmetric] by (simp add: initialSelectedLanguage_first)
  moreover have "c_code c \<noteq> [] \<longrightarrow> selected \<noteq> '''' \<longrightarrow>
        codePaneBody c selected = LanguageTabs (map fst (c_code c)) selected"
    by (simp add: codePaneBody_def hasCode_def availableLanguages_def)
  moreover have "c_code c = [] \<or> selected = '''' \<longrightarrow> codePaneBody c selected = NoCodeSnippet"
    by (auto simp: codePaneBody_def hasCode_def availableLanguages_def)
  ultimately show ?thesis by blast
qed

theorem code_pane_selection_witness:
  "componentToShow (initialViewer\<lparr>hoveredComponent := Some arrowHoldsNoJava\<rparr>)
     = Some arrowHoldsNoJava
   \<and> ''java'' \<notin> fst ` set (c_code arrowHoldsNoJava)
   \<and> c_code arrowHoldsNoJava \<noteq> []
   \<and> renderCodePane (initialViewer\<lparr>hoveredComponent := Some arrowHoldsNoJava\<rparr>) None
       = Some ''python''
   \<and> renderCodePane (initialViewer\<lparr>hoveredComponent := Some arrowHoldsNoJava\<rparr>)
         (Some ''python'') = Some ''python''
   \<and> codePaneBody arrowHoldsNoJava ''python''
       = LanguageTabs [''python'', ''javascript''] ''python''"
proof -
  have shown: "componentToShow (initialViewer\<lparr>hoveredComponent := Some arrowHoldsNoJava\<rparr>)
     = Some arrowHoldsNoJava"
    by (simp add: componentToShow_def initialViewer_def)
  have nj: "''java'' \<notin> fst ` set (c_code arrowHoldsNoJava)"
    and ne: "c_code arrowHoldsNoJava \<noteq> []"
    and first: "fst (hd (c_code arrowHoldsNoJava)) = ''python''"
    and keys: "map fst (c_code arrowHoldsNoJava) = [''python'', ''javascript'']"
    by (simp_all add: arrowHoldsNoJava_def)
  note at = code_pane_selection [OF shown, of "''python''"]
  from at nj ne first have sel: "initialSelectedLanguage arrowHoldsNoJava = ''python''"
    by simp
  from at sel
  have mount: "renderCodePane (initialViewer\<lparr>hoveredComponent := Some arrowHoldsNoJava\<rparr>) None
       = Some ''python''"
    by simp
  from at
  have keep: "renderCodePane (initialViewer\<lparr>hoveredComponent := Some arrowHoldsNoJava\<rparr>)
         (Some ''python'') = Some ''python''"
    by blast
  from at ne keys
  have body: "codePaneBody arrowHoldsNoJava ''python''
       = LanguageTabs [''python'', ''javascript''] ''python''"
    by simp
  show ?thesis
    by (intro conjI) (rule shown nj ne mount keep body)+
qed

end
